theory Spec2Isabelle
  imports Complex_Main
begin

section \<open>Data model (UnitTypes.ts)\<close>

text \<open>
  A JavaScript \<^verbatim>\<open>number\<close> is modelled as a real, or as \<open>NaN\<close>. \<open>NaN\<close> also stands for
  \<^verbatim>\<open>undefined\<close> in a field that the sources read as a number: arithmetic and the
  \<^verbatim>\<open>Math\<close> functions turn \<^verbatim>\<open>undefined\<close> into NaN and return NaN for a NaN operand, and
  every comparison with either is false. The infinities are outside the model (a
  quotient with divisor 0 is the one of HOL's reals). The rounding of double arithmetic
  is written out where a result is cut to an integer, in \<open>calculateDamage\<close>; elsewhere
  the arithmetic is that of the reals. An id and a time are numbers that are never NaN.

  Objects and arrays live in a store and are named by references, because the registry,
  its callers and the event payloads share them. Field names that clash with constants
  of HOL carry the suffix \<open>_u\<close> (\<open>id\<close>, \<open>type\<close>, \<open>range\<close>); the coordinates \<open>x\<close> and
  \<open>y\<close> of a position are \<open>px\<close> and \<open>py\<close>.
\<close>

type_synonym ref = nat

datatype number = Number real | NaN

text \<open>A binary arithmetic operation or \<^verbatim>\<open>Math\<close> function, and the comparisons \<^verbatim>\<open><=\<close> and \<^verbatim>\<open><\<close>.\<close>

fun arith :: "(real \<Rightarrow> real \<Rightarrow> real) \<Rightarrow> number \<Rightarrow> number \<Rightarrow> number" where
  "arith f (Number x) (Number y) = Number (f x y)"
| "arith f _ _ = NaN"

fun le :: "number \<Rightarrow> number \<Rightarrow> bool" where
  "le (Number x) (Number y) = (x \<le> y)"
| "le _ _ = False"

fun lt :: "number \<Rightarrow> number \<Rightarrow> bool" where
  "lt (Number x) (Number y) = (x < y)"
| "lt _ _ = False"

fun Math_sqrt :: "number \<Rightarrow> number" where
  "Math_sqrt (Number x) = (if x < 0 then NaN else Number (sqrt x))"
| "Math_sqrt NaN = NaN"

datatype Faction = player | enemy | neutral

record Position =
  px :: number
  py :: number

record Unit =
  id_u :: int
  type_u :: string
  health :: number
  maxHealth :: number
  attack :: number
  defense :: number
  speed :: number
  range_u :: number
  position :: Position
  selected :: bool
  faction :: Faction

record UnitStats =
  stats_health :: number
  stats_attack :: number
  stats_defense :: number
  stats_speed :: number
  stats_range :: number

text \<open>The five entries of the object literal \<^verbatim>\<open>UNIT_TYPES\<close>.\<close>

definition UNIT_TYPES_entries :: "(string \<times> UnitStats) list" where
  "UNIT_TYPES_entries =
     [(''archer'',
         \<lparr>stats_health = Number 60, stats_attack = Number 12, stats_defense = Number 3,
          stats_speed = Number 3, stats_range = Number 5\<rparr>),
      (''infantry-heavy'',
         \<lparr>stats_health = Number 120, stats_attack = Number 10, stats_defense = Number 8,
          stats_speed = Number 2, stats_range = Number 1\<rparr>),
      (''infantry-medium'',
         \<lparr>stats_health = Number 80, stats_attack = Number 8, stats_defense = Number 5,
          stats_speed = Number 3, stats_range = Number 1\<rparr>),
      (''mage-high'',
         \<lparr>stats_health = Number 50, stats_attack = Number 15, stats_defense = Number 2,
          stats_speed = Number 2, stats_range = Number 4\<rparr>),
      (''mage-squad'',
         \<lparr>stats_health = Number 70, stats_attack = Number 10, stats_defense = Number 4,
          stats_speed = Number 3, stats_range = Number 3\<rparr>)]"

text \<open>
  \<^verbatim>\<open>UNIT_TYPES[type]\<close>. The table is an object literal, so the lookup of a name that is
  not one of its five keys goes on to \<^verbatim>\<open>Object.prototype\<close>: for the names below it
  finds a function or an object (a value that counts as true) that has none of the five
  stat properties, so that each of them reads as \<^verbatim>\<open>undefined\<close>. For every other name
  the lookup is \<^verbatim>\<open>undefined\<close>, here \<open>None\<close>.
\<close>

definition Object_prototype_names :: "string list" where
  "Object_prototype_names =
     [''constructor'', ''hasOwnProperty'', ''isPrototypeOf'', ''propertyIsEnumerable'',
      ''toLocaleString'', ''toString'', ''valueOf'', ''__proto__'',
      ''__defineGetter__'', ''__defineSetter__'', ''__lookupGetter__'', ''__lookupSetter__'']"

definition UNIT_TYPES :: "string \<Rightarrow> UnitStats option" where
  "UNIT_TYPES type =
     (case map_of UNIT_TYPES_entries type of
        Some stats \<Rightarrow> Some stats
      | None \<Rightarrow>
          if type \<in> set Object_prototype_names
          then Some \<lparr>stats_health = NaN, stats_attack = NaN, stats_defense = NaN,
                      stats_speed = NaN, stats_range = NaN\<rparr>
          else None)"

section \<open>The runtime: store, module globals, event bus, randomness and clock\<close>

text \<open>
  The notifications that the model emits, named as in the sources. A payload holds the
  references the source passes, so a unit or an array in a payload is the very object
  of the emitter.
\<close>

datatype Event =
    unit_added ref
  | unit_removed ref
  | unit_selected ref
  | unit_deselected ref
  | units_selected ref
  | units_deselected ref
  | unit_moved ref Position Position
  | unit_damaged ref number
  | unit_healed ref number
  | units_cleared
  | combat_attack ref ref number number
  | combat_defeat ref ref
  | game_over "Faction option" string

text \<open>
  \<open>objs\<close> holds the unit objects and \<open>arrays\<close> the array objects (an array of units
  is a list of references); \<open>nextRef\<close> is the next unused reference. \<open>nextUnitId\<close> is
  the module-level counter of UnitFactory.ts. \<open>randoms\<close> and \<open>clock\<close> are the
  successive results of \<^verbatim>\<open>Math.random()\<close> and \<^verbatim>\<open>Date.now()\<close>. \<open>rounding\<close> is the
  rounding of double arithmetic: the function that takes the exact result of an
  operation to the double that the operation returns.
\<close>

record Runtime =
  objs :: "ref \<Rightarrow> Unit"
  arrays :: "ref \<Rightarrow> ref list"
  nextRef :: ref
  nextUnitId :: int
  events :: "Event list"
  randoms :: "nat \<Rightarrow> real"
  randomCalls :: nat
  clock :: "nat \<Rightarrow> real"
  clockCalls :: nat
  rounding :: "real \<Rightarrow> real"

text \<open>
  What the model takes of round-to-nearest on doubles: it is monotone, it leaves the
  halves of the integers up to \<open>2 ^ 52\<close> unchanged (they are doubles), and up to 1024 it
  moves a value by at most \<open>1 / 2 ^ 40\<close>. Exact arithmetic satisfies it as well.
\<close>

definition rounding_ok :: "(real \<Rightarrow> real) \<Rightarrow> bool" where
  "rounding_ok fl \<longleftrightarrow>
     (\<forall>x y. x \<le> y \<longrightarrow> fl x \<le> fl y) \<and>
     (\<forall>k::int. \<bar>k\<bar> \<le> 2 ^ 52 \<longrightarrow> fl (of_int k / 2) = of_int k / 2) \<and>
     (\<forall>x. \<bar>x\<bar> \<le> 1024 \<longrightarrow> \<bar>fl x - x\<bar> \<le> 1 / 2 ^ 40)"

text \<open>
  The runtime when the program starts: nothing is allocated (a cell that was never
  allocated reads as a blank unit or an empty array, and no definition below reads
  one), \<^verbatim>\<open>let nextUnitId = 0\<close>, and nothing has been emitted.
\<close>

definition blankUnit :: Unit where
  "blankUnit =
     \<lparr>id_u = 0, type_u = [], health = Number 0, maxHealth = Number 0, attack = Number 0,
      defense = Number 0, speed = Number 0, range_u = Number 0,
      position = \<lparr>px = Number 0, py = Number 0\<rparr>, selected = False, faction = neutral\<rparr>"

definition Runtime_init :: "(real \<Rightarrow> real) \<Rightarrow> (nat \<Rightarrow> real) \<Rightarrow> (nat \<Rightarrow> real) \<Rightarrow> Runtime" where
  "Runtime_init fl rnd clk =
     \<lparr>objs = (\<lambda>_. blankUnit), arrays = (\<lambda>_. []), nextRef = 0, nextUnitId = 0, events = [],
      randoms = rnd, randomCalls = 0, clock = clk, clockCalls = 0, rounding = fl\<rparr>"

definition newArray :: "ref list \<Rightarrow> 'a Runtime_scheme \<Rightarrow> ref \<times> 'a Runtime_scheme" where
  "newArray xs s = (nextRef s, s\<lparr>arrays := (arrays s)(nextRef s := xs), nextRef := Suc (nextRef s)\<rparr>)"

definition newObject :: "Unit \<Rightarrow> 'a Runtime_scheme \<Rightarrow> ref \<times> 'a Runtime_scheme" where
  "newObject u s = (nextRef s, s\<lparr>objs := (objs s)(nextRef s := u), nextRef := Suc (nextRef s)\<rparr>)"

text \<open>
  Modelled from the spec: \<^verbatim>\<open>EventBus.emit\<close> (EventBus.ts is not among the sources). The
  spec describes a process-wide publish/subscribe bus that delivers a notification
  synchronously to its listeners; \<open>emit\<close> appends the notification to the log
  \<open>events\<close>, and the listeners are taken not to change the model's state.
\<close>

definition emit :: "Event \<Rightarrow> 'a Runtime_scheme \<Rightarrow> 'a Runtime_scheme" where
  "emit e s = s\<lparr>events := events s @ [e]\<rparr>"

definition Math_random :: "'a Runtime_scheme \<Rightarrow> real \<times> 'a Runtime_scheme" where
  "Math_random s = (randoms s (randomCalls s), s\<lparr>randomCalls := Suc (randomCalls s)\<rparr>)"

definition Date_now :: "'a Runtime_scheme \<Rightarrow> real \<times> 'a Runtime_scheme" where
  "Date_now s = (clock s (clockCalls s), s\<lparr>clockCalls := Suc (clockCalls s)\<rparr>)"

text \<open>\<^verbatim>\<open>Array.prototype.findIndex\<close> (\<open>None\<close> for the result -1) and \<^verbatim>\<open>splice(i, 1)\<close>.\<close>

fun findIndex :: "('a \<Rightarrow> bool) \<Rightarrow> 'a list \<Rightarrow> nat option" where
  "findIndex P [] = None"
| "findIndex P (x # xs) = (if P x then Some 0 else map_option Suc (findIndex P xs))"

definition splice1 :: "nat \<Rightarrow> 'a list \<Rightarrow> 'a list" where
  "splice1 i xs = take i xs @ drop (Suc i) xs"

section \<open>CombatSystem.ts\<close>

definition calculateDistance :: "Position \<Rightarrow> Position \<Rightarrow> number" where
  "calculateDistance pos1 pos2 =
     (let dx = arith (-) (px pos2) (px pos1);
          dy = arith (-) (py pos2) (py pos1)
      in Math_sqrt (arith (+) (arith (*) dx dx) (arith (*) dy dy)))"

definition isInRange :: "Unit \<Rightarrow> Unit \<Rightarrow> bool" where
  "isInRange attacker target =
     (let distance = calculateDistance (position attacker) (position target)
      in le distance (arith (*) (range_u attacker) (Number 50)))"

text \<open>
  \<open>calculateDamage\<close>, with the rounding \<open>fl\<close> of every arithmetic operation written
  out; the literals \<^verbatim>\<open>0.8\<close> and \<^verbatim>\<open>1.2\<close> are the doubles \<open>fl 0.8\<close> and \<open>fl 1.2\<close>. The
  argument \<open>rnd\<close> is the value that \<^verbatim>\<open>Math.random()\<close> returns inside the call. When
  the attack or the defense is not a number, every intermediate value and the result
  are NaN.
\<close>

definition calculateDamage :: "(real \<Rightarrow> real) \<Rightarrow> Unit \<Rightarrow> Unit \<Rightarrow> real \<Rightarrow> number" where
  "calculateDamage fl attacker defender rnd =
     (case (attack attacker, defense defender) of
        (Number att, Number def) \<Rightarrow>
          let baseDamage = fl (att - fl (def / 2));
              minDamage = max 1 \<lfloor>fl (baseDamage * fl 0.8)\<rfloor>;
              maxDamage = \<lceil>fl (baseDamage * fl 1.2)\<rceil>
          in Number (of_int \<lfloor>fl (of_int minDamage +
                     fl (rnd * fl (fl (of_int maxDamage - of_int minDamage) + 1)))\<rfloor>)
      | _ \<Rightarrow> NaN)"

definition performAttack :: "ref \<Rightarrow> ref \<Rightarrow> 'a Runtime_scheme \<Rightarrow> bool \<times> 'a Runtime_scheme" where
  "performAttack attacker defender s =
     (if \<not> isInRange (objs s attacker) (objs s defender) then (False, s)
      else
        let (rnd, s1) = Math_random s;
            damage = calculateDamage (rounding s1) (objs s1 attacker) (objs s1 defender) rnd;
            s2 = s1\<lparr>objs := (objs s1)(defender := (objs s1 defender)
                    \<lparr>health := arith max (Number 0) (arith (-) (health (objs s1 defender)) damage)\<rparr>)\<rparr>;
            s3 = emit (combat_attack attacker defender damage (health (objs s2 defender))) s2;
            defeated = le (health (objs s3 defender)) (Number 0)
        in if defeated then (True, emit (combat_defeat attacker defender) s3) else (False, s3))"

definition findEnemiesInRange :: "(ref \<Rightarrow> Unit) \<Rightarrow> ref \<Rightarrow> ref list \<Rightarrow> ref list" where
  "findEnemiesInRange h unit us =
     filter (\<lambda>u. faction (h u) \<noteq> faction (h unit) \<and> isInRange (h unit) (h u)) us"

section \<open>UnitFactory.ts\<close>

datatype error = UnknownUnitType string

text \<open>
  \<^verbatim>\<open>createUnit\<close> of the factory: the thrown \<^verbatim>\<open>Error\<close> is the left summand; the
  result is returned with the runtime, so that what a failed call leaves behind is
  visible. The test \<^verbatim>\<open>!UNIT_TYPES[type]\<close> succeeds exactly when the lookup is
  \<^verbatim>\<open>undefined\<close>.
\<close>

definition UnitFactory_createUnit ::
  "string \<Rightarrow> Position \<Rightarrow> Faction \<Rightarrow> 'a Runtime_scheme \<Rightarrow> (error + ref) \<times> 'a Runtime_scheme" where
  "UnitFactory_createUnit type pos fac s =
     (case UNIT_TYPES type of
        None \<Rightarrow> (Inl (UnknownUnitType type), s)
      | Some stats \<Rightarrow>
          let s1 = s\<lparr>nextUnitId := nextUnitId s + 1\<rparr>;
              (unit, s2) = newObject
                 \<lparr>id_u = nextUnitId s,
                  type_u = type,
                  health = stats_health stats,
                  maxHealth = stats_health stats,
                  attack = stats_attack stats,
                  defense = stats_defense stats,
                  speed = stats_speed stats,
                  range_u = stats_range stats,
                  position = \<lparr>px = px pos, py = py pos\<rparr>,
                  selected = False,
                  faction = fac\<rparr> s1
          in (Inr unit, s2))"

section \<open>UnitManager.ts\<close>

text \<open>
  The two private fields of the registry are references to array objects of the store.
  The record extends the runtime, so that a method of the registry takes and returns
  the whole program state as the registry sees it.
\<close>

record UnitManager = Runtime +
  units :: ref
  selectedUnits :: ref

definition UnitManager_new :: "Runtime \<Rightarrow> UnitManager" where
  "UnitManager_new rt =
     (let (us, rt1) = newArray [] rt;
          (sel, rt2) = newArray [] rt1
      in Runtime.extend rt2 (UnitManager.fields us sel))"

definition getUnits :: "'a UnitManager_scheme \<Rightarrow> ref \<times> 'a UnitManager_scheme" where
  "getUnits s = newArray (arrays s (units s)) s"

definition getUnitsByFaction :: "Faction \<Rightarrow> 'a UnitManager_scheme \<Rightarrow> ref \<times> 'a UnitManager_scheme" where
  "getUnitsByFaction fac s = newArray (filter (\<lambda>unit. faction (objs s unit) = fac) (arrays s (units s))) s"

definition getSelectedUnits :: "'a UnitManager_scheme \<Rightarrow> ref \<times> 'a UnitManager_scheme" where
  "getSelectedUnits s = newArray (arrays s (selectedUnits s)) s"

definition addUnit :: "ref \<Rightarrow> 'a UnitManager_scheme \<Rightarrow> 'a UnitManager_scheme" where
  "addUnit unit s =
     emit (unit_added unit) (s\<lparr>arrays := (arrays s)(units s := arrays s (units s) @ [unit])\<rparr>)"

definition createUnit ::
  "string \<Rightarrow> Position \<Rightarrow> Faction \<Rightarrow> 'a UnitManager_scheme \<Rightarrow> (error + ref) \<times> 'a UnitManager_scheme" where
  "createUnit type pos fac s =
     (case UnitFactory_createUnit type pos fac s of
        (Inl e, s1) \<Rightarrow> (Inl e, s1)
      | (Inr unit, s1) \<Rightarrow> (Inr unit, addUnit unit s1))"

definition deselectUnit :: "int \<Rightarrow> 'a UnitManager_scheme \<Rightarrow> 'a UnitManager_scheme" where
  "deselectUnit unitId s =
     (case findIndex (\<lambda>u. id_u (objs s u) = unitId) (arrays s (selectedUnits s)) of
        None \<Rightarrow> s
      | Some unitIndex \<Rightarrow>
          let unit = arrays s (selectedUnits s) ! unitIndex;
              s1 = s\<lparr>objs := (objs s)(unit := (objs s unit)\<lparr>selected := False\<rparr>)\<rparr>;
              s2 = s1\<lparr>arrays := (arrays s1)(selectedUnits s1 := splice1 unitIndex (arrays s1 (selectedUnits s1)))\<rparr>
          in emit (unit_deselected unit) s2)"

definition removeUnit :: "int \<Rightarrow> 'a UnitManager_scheme \<Rightarrow> 'a UnitManager_scheme" where
  "removeUnit unitId s =
     (case findIndex (\<lambda>u. id_u (objs s u) = unitId) (arrays s (units s)) of
        None \<Rightarrow> s
      | Some unitIndex \<Rightarrow>
          let unit = arrays s (units s) ! unitIndex;
              s1 = s\<lparr>arrays := (arrays s)(units s := splice1 unitIndex (arrays s (units s)))\<rparr>;
              s2 = deselectUnit unitId s1
          in emit (unit_removed unit) s2)"

definition selectUnit :: "int \<Rightarrow> 'a UnitManager_scheme \<Rightarrow> 'a UnitManager_scheme" where
  "selectUnit unitId s =
     (case find (\<lambda>u. id_u (objs s u) = unitId) (arrays s (units s)) of
        None \<Rightarrow> s
      | Some unit \<Rightarrow>
          if \<not> selected (objs s unit) then
            let s1 = s\<lparr>objs := (objs s)(unit := (objs s unit)\<lparr>selected := True\<rparr>)\<rparr>;
                s2 = s1\<lparr>arrays := (arrays s1)(selectedUnits s1 := arrays s1 (selectedUnits s1) @ [unit])\<rparr>
            in emit (unit_selected unit) s2
          else s)"



text \<open>The \<^verbatim>\<open>else\<close> branch of \<^verbatim>\<open>moveUnit\<close> only writes to the console.\<close>

definition moveUnit :: "int \<Rightarrow> Position \<Rightarrow> 'a UnitManager_scheme \<Rightarrow> 'a UnitManager_scheme" where
  "moveUnit unitId pos s =
     (case find (\<lambda>u. id_u (objs s u) = unitId) (arrays s (units s)) of
        Some unit \<Rightarrow>
          let oldPosition = \<lparr>px = px (position (objs s unit)), py = py (position (objs s unit))\<rparr>;
              s1 = s\<lparr>objs := (objs s)(unit := (objs s unit)\<lparr>position := \<lparr>px = px pos, py = py pos\<rparr>\<rparr>)\<rparr>
          in emit (unit_moved unit oldPosition pos) s1
      | None \<Rightarrow> s)"





section \<open>WorldState.ts\<close>

datatype Terrain = plains | forest | mountains | desert

record WorldConfig =
  width :: real
  height :: real
  terrainType :: "Terrain option"

record WorldState = UnitManager +
  config :: WorldConfig
  combatCooldowns :: "int \<Rightarrow> number option"
  defaultCooldown :: real

definition WorldState_new :: "WorldConfig \<Rightarrow> Runtime \<Rightarrow> WorldState" where
  "WorldState_new cfg rt =
     UnitManager.extend (UnitManager_new rt) (WorldState.fields cfg Map.empty 1000)"

definition WorldState_moveUnit :: "int \<Rightarrow> Position \<Rightarrow> 'a WorldState_scheme \<Rightarrow> 'a WorldState_scheme" where
  "WorldState_moveUnit unitId pos s = moveUnit unitId pos s"

text \<open>
  \<^verbatim>\<open>processCombat\<close> with its third argument given (both callers pass it).
  \<^verbatim>\<open>this.combatCooldowns.get(attackerId) || 0\<close> is 0 for a missing entry and for an
  entry that is NaN (or 0), and the entry otherwise.
\<close>

definition cooldownOf :: "number option \<Rightarrow> real" where
  "cooldownOf entry = (case entry of Some (Number c) \<Rightarrow> c | _ \<Rightarrow> 0)"

definition processCombat ::
  "int \<Rightarrow> int \<Rightarrow> real \<Rightarrow> 'a WorldState_scheme \<Rightarrow> bool \<times> 'a WorldState_scheme" where
  "processCombat attackerId defenderId currentTime s =
     (let cooldown = cooldownOf (combatCooldowns s attackerId)
      in if currentTime < cooldown then (False, s)
         else
           let (us, s1) = getUnits s;
               attacker = find (\<lambda>u. id_u (objs s1 u) = attackerId) (arrays s1 us);
               defender = find (\<lambda>u. id_u (objs s1 u) = defenderId) (arrays s1 us)
           in case (attacker, defender) of
                (Some att, Some def) \<Rightarrow>
                  let (defeated, s2) = performAttack att def s1;
                      s3 = (if defeated then removeUnit defenderId s2 else s2);
                      attackCooldown = arith (*) (Number (defaultCooldown s3))
                                         (arith (/) (Number 1) (speed (objs s3 att)));
                      s4 = s3\<lparr>combatCooldowns :=
                              (combatCooldowns s3)(attackerId \<mapsto>
                                 arith (+) (Number currentTime) attackCooldown)\<rparr>
                  in (defeated, s4)
              | _ \<Rightarrow> (False, s1))"

definition checkCombatForUnit :: "int \<Rightarrow> 'a WorldState_scheme \<Rightarrow> 'a WorldState_scheme" where
  "checkCombatForUnit unitId s =
     (let (currentTime, s1) = Date_now s;
          (us, s2) = getUnits s1
      in case find (\<lambda>u. id_u (objs s2 u) = unitId) (arrays s2 us) of
           None \<Rightarrow> s2
         | Some unit \<Rightarrow>
             let cooldown = cooldownOf (combatCooldowns s2 unitId)
             in if currentTime < cooldown then s2
                else
                  let enemiesInRange = findEnemiesInRange (objs s2) unit (arrays s2 us)
                  in if length enemiesInRange > 0
                     then snd (processCombat (id_u (objs s2 unit))
                                 (id_u (objs s2 (enemiesInRange ! 0))) currentTime s2)
                     else s2)"

record GameStatus =
  over :: bool
  winner :: "Faction option"

definition isGameOver :: "'a WorldState_scheme \<Rightarrow> GameStatus \<times> 'a WorldState_scheme" where
  "isGameOver s =
     (let (playerUnits, s1) = getUnitsByFaction player s;
          (enemyUnits, s2) = getUnitsByFaction enemy s1
      in if length (arrays s2 playerUnits) = 0 then (\<lparr>over = True, winner = Some enemy\<rparr>, s2)
         else if length (arrays s2 enemyUnits) = 0 then (\<lparr>over = True, winner = Some player\<rparr>, s2)
         else (\<lparr>over = False, winner = None\<rparr>, s2))"

section \<open>GameModel.ts\<close>

record GameModel = WorldState +
  gameId :: string
  paused :: bool
  lastUpdate :: real
  updateInterval :: real

text \<open>
  The constructor: the argument \<open>gid\<close> stands for the string that the source formats
  from \<^verbatim>\<open>Date.now()\<close>.
\<close>

definition GameModel_new :: "string \<Rightarrow> WorldConfig \<Rightarrow> Runtime \<Rightarrow> GameModel" where
  "GameModel_new gid cfg rt =
     (let (t, rt1) = Date_now rt
      in WorldState.extend (WorldState_new cfg rt1) (GameModel.fields gid False (- 1) 100))"

definition MAX_VALUE :: real where
  "MAX_VALUE = (2 ^ 53 - 1) * 2 ^ 971"

definition updateEnemyUnits :: "'a GameModel_scheme \<Rightarrow> 'a GameModel_scheme" where
  "updateEnemyUnits g =
     (let (enemies, g1) = getUnitsByFaction enemy g;
          (playerUnits, g2) = getUnitsByFaction player g1
      in if length (arrays g2 enemies) = 0 \<or> length (arrays g2 playerUnits) = 0 then g2
         else
           fold (\<lambda>en g.
                  let (closestUnit, closestDistance) =
                        fold (\<lambda>unit (cu, cd).
                                let dx = arith (-) (px (position (objs g unit))) (px (position (objs g en)));
                                    dy = arith (-) (py (position (objs g unit))) (py (position (objs g en)));
                                    distance = Math_sqrt (arith (+) (arith (*) dx dx) (arith (*) dy dy))
                                in if lt distance cd then (unit, distance) else (cu, cd))
                             (arrays g playerUnits) (arrays g playerUnits ! 0, Number MAX_VALUE);
                      attackRange = arith (*) (range_u (objs g en)) (Number 50)
                  in if lt attackRange closestDistance then
                       let spd = arith (*) (speed (objs g en)) (Number 2);
                           direction =
                             \<lparr>px = arith (/) (arith (-) (px (position (objs g closestUnit)))
                                                       (px (position (objs g en)))) closestDistance,
                              py = arith (/) (arith (-) (py (position (objs g closestUnit)))
                                                       (py (position (objs g en)))) closestDistance\<rparr>;
                           newPosition =
                             \<lparr>px = arith (+) (px (position (objs g en))) (arith (*) (px direction) spd),
                              py = arith (+) (py (position (objs g en))) (arith (*) (py direction) spd)\<rparr>
                       in WorldState_moveUnit (id_u (objs g en)) newPosition g
                     else g)
                (arrays g2 enemies) g2)"

definition checkAllCombat :: "'a GameModel_scheme \<Rightarrow> 'a GameModel_scheme" where
  "checkAllCombat g =
     (let (allUnits, g1) = getUnits g
      in fold (\<lambda>unit g. checkCombatForUnit (id_u (objs g unit)) g) (arrays g1 allUnits) g1)"

definition checkGameOver :: "'a GameModel_scheme \<Rightarrow> 'a GameModel_scheme" where
  "checkGameOver g =
     (let (gameStatus, g1) = isGameOver g
      in if over gameStatus
         then emit (game_over (winner gameStatus) (gameId g1)) (g1\<lparr>paused := True\<rparr>)
         else g1)"

definition update :: "real \<Rightarrow> real \<Rightarrow> 'a GameModel_scheme \<Rightarrow> 'a GameModel_scheme" where
  "update time delta g =
     (let g1 = (if lastUpdate g = - 1 then g\<lparr>lastUpdate := time\<rparr> else g)
      in if paused g1 then g1
         else if time - lastUpdate g1 \<ge> updateInterval g1 then
           let g2 = g1\<lparr>lastUpdate := lastUpdate g1 - updateInterval g1\<rparr>;
               g3 = updateEnemyUnits g2;
               g4 = checkAllCombat g3;
               g5 = checkGameOver g4
           in g5
         else g1)"

section \<open>Registry invariants and registry operations\<close>

text \<open>
  \<open>store_ok\<close>: the registry's two arrays are allocated and are two different arrays,
  and every unit they hold is an allocated object.
\<close>

definition store_ok :: "'a UnitManager_scheme \<Rightarrow> bool" where
  "store_ok s \<longleftrightarrow>
     units s < nextRef s \<and> selectedUnits s < nextRef s \<and> units s \<noteq> selectedUnits s \<and>
     (\<forall>u \<in> set (arrays s (units s)). u < nextRef s) \<and>
     (\<forall>u \<in> set (arrays s (selectedUnits s)). u < nextRef s)"

text \<open>
  \<open>selection_ok\<close>: the selection list has no duplicate and holds exactly the units of
  the registry whose \<open>selected\<close> flag is set. \<open>selection_first\<close>: a selected unit is the
  first unit of the registry with its id (the methods of the registry look a unit up by
  its id, and two units of the registry can have the same id). \<open>health_ok\<close>: every
  unit of the registry has \<open>0 < health \<le> maxHealth\<close>.
\<close>

definition selection_ok :: "'a UnitManager_scheme \<Rightarrow> bool" where
  "selection_ok s \<longleftrightarrow>
     distinct (arrays s (selectedUnits s)) \<and>
     (\<forall>u \<in> set (arrays s (selectedUnits s)). u \<in> set (arrays s (units s)) \<and> selected (objs s u)) \<and>
     (\<forall>u \<in> set (arrays s (units s)). selected (objs s u) \<longrightarrow> u \<in> set (arrays s (selectedUnits s)))"

definition selection_first :: "'a UnitManager_scheme \<Rightarrow> bool" where
  "selection_first s \<longleftrightarrow>
     (\<forall>u \<in> set (arrays s (selectedUnits s)).
        find (\<lambda>v. id_u (objs s v) = id_u (objs s u)) (arrays s (units s)) = Some u)"

definition health_ok :: "'a UnitManager_scheme \<Rightarrow> bool" where
  "health_ok s \<longleftrightarrow>
     (\<forall>u \<in> set (arrays s (units s)).
        lt (Number 0) (health (objs s u)) \<and> le (health (objs s u)) (maxHealth (objs s u)))"

text \<open>
  \<open>units_ok\<close>: the store is in order and no unit is in the registry twice.
  \<open>registry_ok\<close> adds the two properties of the selection.
\<close>

definition units_ok :: "'a UnitManager_scheme \<Rightarrow> bool" where
  "units_ok s \<longleftrightarrow> store_ok s \<and> distinct (arrays s (units s))"

definition registry_ok :: "'a UnitManager_scheme \<Rightarrow> bool" where
  "registry_ok s \<longleftrightarrow> units_ok s \<and> selection_ok s \<and> selection_first s"









text \<open>
  What a caller can do with a reference it holds: overwrite the array, or overwrite the
  unit object, that the reference names.
\<close>

definition caller_writes_array :: "ref \<Rightarrow> ref list \<Rightarrow> 'a Runtime_scheme \<Rightarrow> 'a Runtime_scheme" where
  "caller_writes_array a xs s = s\<lparr>arrays := (arrays s)(a := xs)\<rparr>"

definition caller_writes_unit :: "ref \<Rightarrow> Unit \<Rightarrow> 'a Runtime_scheme \<Rightarrow> 'a Runtime_scheme" where
  "caller_writes_unit u v s = s\<lparr>objs := (objs s)(u := v)\<rparr>"

text \<open>
  The internal state of the registry: its unit list, its selection list, and the
  fields of every unit stored in them.
\<close>

definition internals ::
  "'a UnitManager_scheme \<Rightarrow> ref list \<times> ref list \<times> Unit list \<times> Unit list" where
  "internals s =
     (arrays s (units s), arrays s (selectedUnits s),
      map (objs s) (arrays s (units s)), map (objs s) (arrays s (selectedUnits s)))"

section \<open>States used as concrete inputs\<close>

text \<open>
  The scenario of the spec: a new game whose registry holds one player archer at (0, 0)
  and one enemy infantry-medium at (100, 0), with \<open>fl\<close> as the rounding, \<open>rnd\<close> as the
  results of \<^verbatim>\<open>Math.random()\<close> and a clock that stands at 0. The registry's arrays are
  the references 0 and 1, the archer is 2, the infantry 3.
\<close>

definition scenario :: "(real \<Rightarrow> real) \<Rightarrow> (nat \<Rightarrow> real) \<Rightarrow> GameModel" where
  "scenario fl rnd =
     (let g0 = GameModel_new ''game_0'' \<lparr>width = 1024, height = 768, terrainType = None\<rparr>
                 (Runtime_init fl rnd (\<lambda>_. 0));
          (archer, g1) = createUnit ''archer'' \<lparr>px = Number 0, py = Number 0\<rparr> player g0;
          (infantry, g2) = createUnit ''infantry-medium'' \<lparr>px = Number 100, py = Number 0\<rparr> enemy g1
      in g2)"

section \<open>Evaluation and arithmetic helpers\<close>

lemmas eval_defs = GameModel_new_def WorldState_new_def UnitManager_new_def Runtime_init_def
  Date_now_def newArray_def createUnit_def UnitFactory_createUnit_def UNIT_TYPES_def
  UNIT_TYPES_entries_def Object_prototype_names_def
  newObject_def addUnit_def emit_def Runtime.extend_def UnitManager.extend_def
  WorldState.extend_def UnitManager.fields_def WorldState.fields_def GameModel.fields_def Let_def

lemma sqrt_le_iff_sq:
  assumes "0 \<le> y"
  shows "sqrt x \<le> y \<longleftrightarrow> x \<le> y * y"
proof -
  have "sqrt (y * y) = y" using assms by simp
  then have "sqrt x \<le> y \<longleftrightarrow> sqrt x \<le> sqrt (y * y)" by simp
  then show ?thesis by (simp only: real_sqrt_le_iff)
qed

lemma arith_NaN_right [simp]: "arith f x NaN = NaN"
  by (cases x) simp_all

lemma calculateDistance_sym: "calculateDistance p q = calculateDistance q p"
proof -
  have "arith (+) (arith (*) (arith (-) a b) (arith (-) a b)) (arith (*) (arith (-) c d) (arith (-) c d)) =
        arith (+) (arith (*) (arith (-) b a) (arith (-) b a)) (arith (*) (arith (-) d c) (arith (-) d c))"
    for a b c d
    by (cases a; cases b; cases c; cases d) (simp_all add: algebra_simps)
  then show ?thesis by (simp add: calculateDistance_def Let_def)
qed

text \<open>What \<open>rounding_ok\<close> gives: the integers and their halves are not rounded.\<close>

lemma rounding_half:
  assumes "rounding_ok fl" "\<bar>k\<bar> \<le> 2 ^ 52"
  shows "fl (of_int k / 2) = of_int k / 2"
  using assms unfolding rounding_ok_def by blast

lemma rounding_int:
  assumes "rounding_ok fl" "\<bar>k\<bar> \<le> 2 ^ 51"
  shows "fl (of_int k) = of_int k"
proof -
  have "\<bar>2 * k\<bar> \<le> 2 ^ 52" using assms(2) by simp
  from rounding_half[OF assms(1) this] show ?thesis by simp
qed


lemma rounding_near:
  assumes "rounding_ok fl" "\<bar>x\<bar> \<le> 1024"
  shows "\<bar>fl x - x\<bar> \<le> 1 / 2 ^ 40"
  using assms unfolding rounding_ok_def by blast

lemma rounding_ok_exact: "rounding_ok (\<lambda>x. x)"
  by (simp add: rounding_ok_def)


section \<open>Combat resolver\<close>

text \<open>
  Claim C9. The distance is symmetric: \<open>calculateDistance p q = calculateDistance q p\<close>
  for all positions. The range check is not: it reads the attacker's range only
  (changing the target's range never changes the answer), and for an archer-like unit
  \<open>a\<close> (range 5) at (0, 0) and an infantry-like unit \<open>b\<close> (range 1) at (100, 0),
  \<open>isInRange a b\<close> holds (100 \<le> 250) while \<open>isInRange b a\<close> does not (100 > 50).
\<close>

theorem distance_symmetric_range_check_not:
  "(\<forall>p q. calculateDistance p q = calculateDistance q p) \<and>
   (\<forall>a b r. isInRange a (b\<lparr>range_u := r\<rparr>) = isInRange a b) \<and>
   isInRange (blankUnit\<lparr>range_u := Number 5\<rparr>)
             (blankUnit\<lparr>range_u := Number 1, position := \<lparr>px = Number 100, py = Number 0\<rparr>\<rparr>) \<and>
   \<not> isInRange (blankUnit\<lparr>range_u := Number 1, position := \<lparr>px = Number 100, py = Number 0\<rparr>\<rparr>)
               (blankUnit\<lparr>range_u := Number 5\<rparr>)"
proof (intro conjI allI)
  show "calculateDistance p q = calculateDistance q p" for p q
    by (rule calculateDistance_sym)
  show "isInRange a (b\<lparr>range_u := r\<rparr>) = isInRange a b" for a b r
    by (simp add: isInRange_def)
  show "isInRange (blankUnit\<lparr>range_u := Number 5\<rparr>)
          (blankUnit\<lparr>range_u := Number 1, position := \<lparr>px = Number 100, py = Number 0\<rparr>\<rparr>)"
    by (simp add: isInRange_def calculateDistance_def blankUnit_def sqrt_le_iff_sq)
  show "\<not> isInRange (blankUnit\<lparr>range_u := Number 1, position := \<lparr>px = Number 100, py = Number 0\<rparr>\<rparr>)
          (blankUnit\<lparr>range_u := Number 5\<rparr>)"
    by (simp add: isInRange_def calculateDistance_def blankUnit_def sqrt_le_iff_sq)
qed

text \<open>
  Claim C1 (the code departs from it). For a weak attacker against a strong defender
  the roll leaves the interval: with attack 1, defense 4 and \<^verbatim>\<open>Math.random()\<close> = 1/2 the
  base damage is -1, \<open>minDamage\<close> is 1, \<open>maxDamage\<close> is -1, and the result is
  \<open>\<lfloor>1 + 1/2 * (-1)\<rfloor> = 0\<close>: below \<open>minDamage\<close> and below 1. This is so with exact
  arithmetic and with every rounding that satisfies \<open>rounding_ok\<close>.
\<close>

theorem calculateDamage_below_one:
  "calculateDamage (\<lambda>x. x) (blankUnit\<lparr>attack := Number 1\<rparr>) (blankUnit\<lparr>defense := Number 4\<rparr>) (1 / 2)
     = Number 0 \<and>
   (\<forall>fl. rounding_ok fl \<longrightarrow>
      calculateDamage fl (blankUnit\<lparr>attack := Number 1\<rparr>) (blankUnit\<lparr>defense := Number 4\<rparr>) (1 / 2)
        = Number 0)"
proof (intro conjI allI impI)
  show "calculateDamage (\<lambda>x. x) (blankUnit\<lparr>attack := Number 1\<rparr>) (blankUnit\<lparr>defense := Number 4\<rparr>) (1 / 2)
     = Number 0"
    by (simp add: calculateDamage_def blankUnit_def)
next
  fix fl :: "real \<Rightarrow> real"
  assume fl: "rounding_ok fl"
  define e :: real where "e = 1 / 2 ^ 40"
  have e: "0 < e" "e < 1 / 1000" by (simp_all add: e_def)
  have i2: "fl 2 = 2" using rounding_int[OF fl, of 2] by simp
  have im1: "fl (- 1) = - 1" using rounding_int[OF fl, of "- 1"] by simp
  have im2: "fl (- 2) = - 2" using rounding_int[OF fl, of "- 2"] by simp
  have hm: "fl (- (1 / 2)) = - (1 / 2)" using rounding_half[OF fl, of "- 1"] by simp
  have hp: "fl (1 / 2) = 1 / 2" using rounding_half[OF fl, of 1] by simp
  have c8: "\<bar>fl (4 / 5) - 4 / 5\<bar> \<le> e" using rounding_near[OF fl, of "4 / 5"] by (simp add: e_def)
  have c12: "\<bar>fl (6 / 5) - 6 / 5\<bar> \<le> e" using rounding_near[OF fl, of "6 / 5"] by (simp add: e_def)
  define lo where "lo = - fl (4 / 5)"
  define hi where "hi = - fl (6 / 5)"
  have lo: "- 0.9 \<le> lo" "lo \<le> - 0.7" using c8 e unfolding lo_def by linarith+
  have hi: "- 1.3 \<le> hi" "hi \<le> - 1.1" using c12 e unfolding hi_def by linarith+
  have "\<bar>fl lo - lo\<bar> \<le> e" using rounding_near[OF fl, of lo] lo by (simp add: e_def)
  then have flo: "- 1 \<le> fl lo" "fl lo < 0" using lo e by linarith+
  have "\<bar>fl hi - hi\<bar> \<le> e" using rounding_near[OF fl, of hi] hi by (simp add: e_def)
  then have fhi: "- 2 < fl hi" "fl hi \<le> - 1" using hi e by linarith+
  have mn: "\<lfloor>fl lo\<rfloor> = - 1" using flo by linarith
  have mx: "\<lceil>fl hi\<rceil> = - 1" using fhi by linarith
  show "calculateDamage fl (blankUnit\<lparr>attack := Number 1\<rparr>) (blankUnit\<lparr>defense := Number 4\<rparr>) (1 / 2)
        = Number 0"
    by (simp add: calculateDamage_def Let_def blankUnit_def i2 im1 lo_def[symmetric] hi_def[symmetric]
        mn mx im2 hm hp)
qed

text \<open>The theorem at exact arithmetic, which satisfies \<open>rounding_ok\<close>.\<close>

theorem calculateDamage_below_one_witness:
  "rounding_ok (\<lambda>x. x) \<and>
   calculateDamage (\<lambda>x. x) (blankUnit\<lparr>attack := Number 1\<rparr>) (blankUnit\<lparr>defense := Number 4\<rparr>) (1 / 2)
     = Number 0"
  using calculateDamage_below_one by (simp add: rounding_ok_def)




text \<open>
  The upper end 13 is attained under \<open>rounding_ok\<close>: a rounding that takes the values
  from \<open>13 - 1 / 2 ^ 41\<close> up to 13 and leaves every other value as it is satisfies
  \<open>rounding_ok\<close>, and with it the damage for \<^verbatim>\<open>Math.random()\<close> = \<open>1 - 1 / 2 ^ 44\<close> is 13.
\<close>

lemma calculateDamage_archer_infantry_upper_end:
  assumes "attack a = Number 12" "defense d = Number 5"
  shows "\<exists>fl rnd. rounding_ok fl \<and> 0 \<le> rnd \<and> rnd < 1 \<and> calculateDamage fl a d rnd = Number 13"
proof -
  define fl :: "real \<Rightarrow> real" where "fl x = (if 13 - 1 / 2 ^ 41 \<le> x \<and> x \<le> 13 then 13 else x)" for x
  define rnd :: real where "rnd = 1 - 1 / 2 ^ 44"
  have far: "fl x = x" if "x \<le> 12" for x using that by (simp add: fl_def)
  have "fl x \<le> fl y" if "x \<le> y" for x y using that by (auto simp: fl_def)
  moreover have "fl (of_int k / 2) = of_int k / 2" for k :: int
  proof (cases "13 - 1 / 2 ^ 41 \<le> (of_int k / 2 :: real) \<and> (of_int k / 2 :: real) \<le> 13")
    case False
    then show ?thesis by (simp add: fl_def)
  next
    case True
    then have "(25 :: real) < of_int k" "(of_int k :: real) \<le> 26" by simp_all
    then have "25 < k" "k \<le> 26" by linarith+
    then have "k = 26" by simp
    then show ?thesis by (simp add: fl_def)
  qed
  moreover have "\<bar>fl x - x\<bar> \<le> 1 / 2 ^ 40" for x by (simp add: fl_def)
  ultimately have ok: "rounding_ok fl" by (simp add: rounding_ok_def)
  have r: "0 \<le> rnd" "rnd < 1" by (simp_all add: rnd_def)
  have c: "fl (5 / 2) = 5 / 2" "fl (19 / 2) = 19 / 2" "fl (4 / 5) = 4 / 5" "fl (6 / 5) = 6 / 5"
    "fl (38 / 5) = 38 / 5" "fl (57 / 5) = 57 / 5" "fl 5 = 5" "fl 6 = 6"
    by (simp_all add: far)
  have "rnd * 6 \<le> 12" using r by simp
  then have m: "fl (rnd * 6) = rnd * 6" by (rule far)
  have s: "fl (7 + rnd * 6) = 13" by (simp add: fl_def rnd_def)
  have "calculateDamage fl a d rnd = Number 13"
    by (simp add: calculateDamage_def Let_def assms c m s)
  then show ?thesis using ok r by blast
qed

section \<open>Game controller: the fixed-step clock\<close>

text \<open>No part of a simulation step writes \<open>lastUpdate\<close>.\<close>

lemma lastUpdate_emit [simp]: "lastUpdate (emit e g) = lastUpdate g"
  by (simp add: emit_def)

lemma lastUpdate_newArray [simp]: "lastUpdate (snd (newArray xs g)) = lastUpdate g"
  by (simp add: newArray_def)

lemma lastUpdate_getUnits [simp]: "lastUpdate (snd (getUnits g)) = lastUpdate g"
  by (simp add: getUnits_def)

lemma lastUpdate_getUnitsByFaction [simp]: "lastUpdate (snd (getUnitsByFaction f g)) = lastUpdate g"
  by (simp add: getUnitsByFaction_def)

lemma lastUpdate_moveUnit [simp]: "lastUpdate (moveUnit i p g) = lastUpdate g"
  by (simp add: moveUnit_def Let_def split: option.splits)

lemma lastUpdate_deselectUnit [simp]: "lastUpdate (deselectUnit i g) = lastUpdate g"
  by (simp add: deselectUnit_def Let_def split: option.splits)

lemma lastUpdate_removeUnit [simp]: "lastUpdate (removeUnit i g) = lastUpdate g"
  by (simp add: removeUnit_def Let_def split: option.splits)

lemma lastUpdate_performAttack [simp]: "lastUpdate (snd (performAttack a d g)) = lastUpdate g"
  by (simp add: performAttack_def Math_random_def Let_def)

lemma lastUpdate_processCombat [simp]: "lastUpdate (snd (processCombat a d t g)) = lastUpdate g"
  by (simp add: processCombat_def Let_def split_beta split: option.splits)

lemma lastUpdate_checkCombatForUnit [simp]: "lastUpdate (checkCombatForUnit i g) = lastUpdate g"
  by (simp add: checkCombatForUnit_def Date_now_def Let_def split_beta split: option.splits)

lemma lastUpdate_fold:
  assumes "\<And>x g. lastUpdate (f x g) = lastUpdate g"
  shows "lastUpdate (fold f xs g) = lastUpdate g"
  using assms by (induction xs arbitrary: g) simp_all

lemma lastUpdate_checkAllCombat [simp]: "lastUpdate (checkAllCombat g) = lastUpdate g"
  by (simp add: checkAllCombat_def split_beta lastUpdate_fold)

lemma lastUpdate_isGameOver [simp]: "lastUpdate (snd (isGameOver g)) = lastUpdate g"
  by (simp add: isGameOver_def Let_def split_beta)

lemma lastUpdate_checkGameOver [simp]: "lastUpdate (checkGameOver g) = lastUpdate g"
  by (simp add: checkGameOver_def Let_def split_beta)

lemma lastUpdate_updateEnemyUnits [simp]: "lastUpdate (updateEnemyUnits g) = lastUpdate g"
  by (simp add: updateEnemyUnits_def WorldState_moveUnit_def Let_def split_beta lastUpdate_fold)

text \<open>
  What the code does in a call that performs a simulation step: it subtracts the
  interval from \<open>lastUpdate\<close> (\<^verbatim>\<open>this.lastUpdate -= this.updateInterval\<close>).
\<close>

lemma update_step_lastUpdate:
  assumes "lastUpdate g \<noteq> - 1" "\<not> paused g" "time - lastUpdate g \<ge> updateInterval g"
  shows "lastUpdate (update time delta g) = lastUpdate g - updateInterval g"
  using assms by (simp add: update_def Let_def)

text \<open>The first frame only records the time (for a positive interval).\<close>

lemma update_first:
  "lastUpdate g = - 1 \<Longrightarrow> \<not> paused g \<Longrightarrow> 0 < updateInterval g \<Longrightarrow>
   update time delta g = g\<lparr>lastUpdate := time\<rparr>"
  by (simp add: update_def Let_def)

text \<open>
  Claim C3 (the code departs from it). In the scenario the first frame at time 0 sets
  \<open>lastUpdate\<close> to 0; the frame at time 100 performs a simulation step (not paused,
  100 - 0 \<ge> 100) and leaves \<open>lastUpdate\<close> at -100, not at 0 + 100 = 100.
\<close>

theorem update_decrements_lastUpdate:
  "lastUpdate (update 0 16 (scenario (\<lambda>x. x) (\<lambda>_. 0))) = 0 \<and>
   lastUpdate (update 100 16 (update 0 16 (scenario (\<lambda>x. x) (\<lambda>_. 0)))) = - 100"
proof -
  have 1: "lastUpdate (scenario (\<lambda>x. x) (\<lambda>_. 0)) = - 1" "\<not> paused (scenario (\<lambda>x. x) (\<lambda>_. 0))"
     "updateInterval (scenario (\<lambda>x. x) (\<lambda>_. 0)) = 100"
    by (simp_all add: scenario_def eval_defs)
  have 2: "update 0 16 (scenario (\<lambda>x. x) (\<lambda>_. 0)) = (scenario (\<lambda>x. x) (\<lambda>_. 0))\<lparr>lastUpdate := 0\<rparr>"
    using 1 by (simp add: update_first)
  show ?thesis
    using 1 by (simp add: 2 update_step_lastUpdate)
qed

section \<open>Unit creation\<close>

text \<open>The names that the lookup \<^verbatim>\<open>UNIT_TYPES[type]\<close> resolves.\<close>

lemma UNIT_TYPES_dom:
  "dom UNIT_TYPES =
     {''archer'', ''infantry-heavy'', ''infantry-medium'', ''mage-high'', ''mage-squad''} \<union>
     set Object_prototype_names"
  by (auto simp: UNIT_TYPES_def UNIT_TYPES_entries_def split: if_splits option.splits)

lemma UNIT_TYPES_template:
  "map_of UNIT_TYPES_entries type = Some stats \<Longrightarrow> UNIT_TYPES type = Some stats"
  by (simp add: UNIT_TYPES_def)

lemma UNIT_TYPES_inherited:
  "type \<in> set Object_prototype_names \<Longrightarrow>
   map_of UNIT_TYPES_entries type = None \<and>
   UNIT_TYPES type = Some \<lparr>stats_health = NaN, stats_attack = NaN, stats_defense = NaN,
                           stats_speed = NaN, stats_range = NaN\<rparr>"
  by (auto simp: UNIT_TYPES_def UNIT_TYPES_entries_def Object_prototype_names_def)

text \<open>
  The part of claim C8 that holds. For a type name of the template table, the factory's
  and the registry's \<open>createUnit\<close> return a unit whose \<open>health\<close> and \<open>maxHealth\<close> are
  the template's health and whose \<open>selected\<close> flag is false (the registry appends it to
  its unit list). For a name for which the lookup \<^verbatim>\<open>UNIT_TYPES[type]\<close> is undefined both
  fail with \<open>UnknownUnitType\<close> and return the state they were given: no unit object, no
  registry entry, and the id counter \<open>nextUnitId\<close> is not advanced.
\<close>

lemma createUnit_template_or_undefined:
  "(\<forall>stats. map_of UNIT_TYPES_entries type = Some stats \<longrightarrow>
      (\<exists>unit s'. UnitFactory_createUnit type pos fac s = (Inr unit, s') \<and>
          health (objs s' unit) = stats_health stats \<and>
          maxHealth (objs s' unit) = stats_health stats \<and>
          selected (objs s' unit) = False) \<and>
      (\<exists>unit s'. createUnit type pos fac s = (Inr unit, s') \<and>
          health (objs s' unit) = stats_health stats \<and>
          maxHealth (objs s' unit) = stats_health stats \<and>
          selected (objs s' unit) = False \<and>
          arrays s' (units s') = arrays s (units s) @ [unit])) \<and>
   (UNIT_TYPES type = None \<longrightarrow>
      UnitFactory_createUnit type pos fac s = (Inl (UnknownUnitType type), s) \<and>
      createUnit type pos fac s = (Inl (UnknownUnitType type), s))"
  by (simp add: createUnit_def UnitFactory_createUnit_def UNIT_TYPES_def newObject_def
      addUnit_def emit_def Let_def)

text \<open>
  Claim C8 (the code departs from it). The name \<open>constructor\<close> is absent from the
  template table, and \<open>createUnit\<close> does not fail for it: the lookup finds the
  property that every object inherits, so the factory builds a unit whose \<open>health\<close>,
  \<open>maxHealth\<close> and other stats are undefined and advances the id counter, and the
  registry appends the unit to its unit list and emits the notification. This holds in
  every state \<open>s\<close>, for every position and faction.
\<close>

theorem createUnit_inherited_name_does_not_fail:
  "map_of UNIT_TYPES_entries ''constructor'' = None \<and>
   fst (UnitFactory_createUnit ''constructor'' pos fac s) = Inr (nextRef s) \<and>
   nextUnitId (snd (UnitFactory_createUnit ''constructor'' pos fac s)) = nextUnitId s + 1 \<and>
   fst (createUnit ''constructor'' pos fac s) = Inr (nextRef s) \<and>
   nextUnitId (snd (createUnit ''constructor'' pos fac s)) = nextUnitId s + 1 \<and>
   nextRef (snd (createUnit ''constructor'' pos fac s)) = Suc (nextRef s) \<and>
   arrays (snd (createUnit ''constructor'' pos fac s)) (units (snd (createUnit ''constructor'' pos fac s)))
     = arrays s (units s) @ [nextRef s] \<and>
   events (snd (createUnit ''constructor'' pos fac s)) = events s @ [unit_added (nextRef s)] \<and>
   objs (snd (createUnit ''constructor'' pos fac s)) (nextRef s) =
     \<lparr>id_u = nextUnitId s, type_u = ''constructor'', health = NaN, maxHealth = NaN, attack = NaN,
      defense = NaN, speed = NaN, range_u = NaN, position = \<lparr>px = px pos, py = py pos\<rparr>,
      selected = False, faction = fac\<rparr>"
  by (simp add: createUnit_def UnitFactory_createUnit_def UNIT_TYPES_def UNIT_TYPES_entries_def
      Object_prototype_names_def newObject_def addUnit_def emit_def Let_def)

text \<open>The same for every name that the lookup finds in \<^verbatim>\<open>Object.prototype\<close>.\<close>

lemma createUnit_inherited:
  assumes "type \<in> set Object_prototype_names"
  shows "fst (createUnit type pos fac s) = Inr (nextRef s)"
    and "nextUnitId (snd (createUnit type pos fac s)) = nextUnitId s + 1"
    and "arrays (snd (createUnit type pos fac s)) (units (snd (createUnit type pos fac s)))
           = arrays s (units s) @ [nextRef s]"
    and "health (objs (snd (createUnit type pos fac s)) (nextRef s)) = NaN"
  using UNIT_TYPES_inherited[OF assms]
  by (simp_all add: createUnit_def UnitFactory_createUnit_def newObject_def addUnit_def emit_def
      Let_def)

section \<open>Win condition\<close>

lemmas registry_defs = removeUnit_def deselectUnit_def selectUnit_def splice1_def

text \<open>
  Claim C2. \<open>isGameOver\<close> tests the player side first: with no player unit in the
  registry the result is \<open>over\<close> with winner \<open>enemy\<close> (so also for an empty registry);
  with a player unit and no enemy unit it is \<open>over\<close> with winner \<open>player\<close>; otherwise it
  is not over and has no winner. The call leaves the registry's unit list and the unit
  objects as they were. The hypothesis says that the registry's array is allocated.
\<close>

theorem isGameOver_player_checked_first:
  assumes "units s < nextRef s"
  shows "fst (isGameOver s) =
     (if filter (\<lambda>u. faction (objs s u) = player) (arrays s (units s)) = []
      then \<lparr>over = True, winner = Some enemy\<rparr>
      else if filter (\<lambda>u. faction (objs s u) = enemy) (arrays s (units s)) = []
      then \<lparr>over = True, winner = Some player\<rparr>
      else \<lparr>over = False, winner = None\<rparr>) \<and>
     (arrays s (units s) = [] \<longrightarrow> fst (isGameOver s) = \<lparr>over = True, winner = Some enemy\<rparr>) \<and>
     arrays (snd (isGameOver s)) (units (snd (isGameOver s))) = arrays s (units s) \<and>
     objs (snd (isGameOver s)) = objs s"
  using assms by (simp add: isGameOver_def getUnitsByFaction_def newArray_def Let_def)

text \<open>
  The theorem at the scenario (both sides present), after the infantry is removed
  (player wins), and after the archer is removed as well (empty registry, enemy wins).
\<close>

theorem isGameOver_player_checked_first_witness:
  "units (scenario (\<lambda>x. x) (\<lambda>_. 0)) < nextRef (scenario (\<lambda>x. x) (\<lambda>_. 0)) \<and>
   fst (isGameOver (scenario (\<lambda>x. x) (\<lambda>_. 0))) = \<lparr>over = False, winner = None\<rparr> \<and>
   units (removeUnit 1 (scenario (\<lambda>x. x) (\<lambda>_. 0))) < nextRef (removeUnit 1 (scenario (\<lambda>x. x) (\<lambda>_. 0))) \<and>
   fst (isGameOver (removeUnit 1 (scenario (\<lambda>x. x) (\<lambda>_. 0)))) = \<lparr>over = True, winner = Some player\<rparr> \<and>
   units (removeUnit 0 (removeUnit 1 (scenario (\<lambda>x. x) (\<lambda>_. 0)))) < nextRef (removeUnit 0 (removeUnit 1 (scenario (\<lambda>x. x) (\<lambda>_. 0)))) \<and>
   arrays (removeUnit 0 (removeUnit 1 (scenario (\<lambda>x. x) (\<lambda>_. 0)))) (units (removeUnit 0 (removeUnit 1 (scenario (\<lambda>x. x) (\<lambda>_. 0))))) = [] \<and>
   fst (isGameOver (removeUnit 0 (removeUnit 1 (scenario (\<lambda>x. x) (\<lambda>_. 0))))) = \<lparr>over = True, winner = Some enemy\<rparr>"
proof -
  define A where "A = scenario (\<lambda>x. x) (\<lambda>_. 0)"
  define B where "B = removeUnit 1 A"
  define C where "C = removeUnit 0 B"
  have A: "units A = 0" "nextRef A = 4" "arrays A 0 = [2, 3]" "arrays A (Suc 0) = []" "selectedUnits A = Suc 0"
    "id_u (objs A 2) = 0" "id_u (objs A 3) = 1" "faction (objs A 2) = player" "faction (objs A 3) = enemy"
    by (simp_all add: A_def scenario_def eval_defs)
  have B: "units B = 0" "nextRef B = 4" "arrays B 0 = [2]" "arrays B (Suc 0) = []" "selectedUnits B = Suc 0" "objs B = objs A"
    by (simp_all add: B_def registry_defs emit_def Let_def A)
  have C: "units C = 0" "nextRef C = 4" "arrays C 0 = []" "objs C = objs A"
    by (simp_all add: C_def registry_defs emit_def Let_def A B)
  have "units A < nextRef A \<and> fst (isGameOver A) = \<lparr>over = False, winner = None\<rparr> \<and>
        units B < nextRef B \<and> fst (isGameOver B) = \<lparr>over = True, winner = Some player\<rparr> \<and>
        units C < nextRef C \<and> arrays C (units C) = [] \<and>
        fst (isGameOver C) = \<lparr>over = True, winner = Some enemy\<rparr>"
    using isGameOver_player_checked_first[of A] isGameOver_player_checked_first[of B]
      isGameOver_player_checked_first[of C]
    by (simp add: A B C)
  then show ?thesis by (simp only: A_def B_def C_def)
qed

section \<open>Registry: arrays, frames and the effect of each operation\<close>





lemma find_None_D: "find P xs = None \<Longrightarrow> x \<in> set xs \<Longrightarrow> \<not> P x"
  by (simp add: find_None_iff)






lemma units_ok_emit [simp]: "units_ok (emit e s) = units_ok s"
  by (simp add: emit_def units_ok_def store_ok_def)

lemma registry_ok_emit [simp]: "registry_ok (emit e s) = registry_ok s"
  by (simp add: emit_def registry_ok_def units_ok_def store_ok_def selection_ok_def
      selection_first_def)

lemma health_ok_emit [simp]: "health_ok (emit e s) = health_ok s"
  by (simp add: emit_def health_ok_def)








subsection \<open>deselectUnit and removeUnit\<close>

















subsection \<open>selectUnit, deselectAll and selectUnits\<close>



















subsection \<open>addUnit and createUnit\<close>







lemma invariants_nextUnitId [simp]:
  "units_ok (s\<lparr>nextUnitId := n\<rparr>) = units_ok s"
  "registry_ok (s\<lparr>nextUnitId := n\<rparr>) = registry_ok s"
  "health_ok (s\<lparr>nextUnitId := n\<rparr>) = health_ok s"
  by (simp_all add: registry_ok_def units_ok_def store_ok_def selection_ok_def
      selection_first_def health_ok_def)







subsection \<open>moveUnit, healUnit, damageUnit and clear\<close>






















subsection \<open>Every operation, and the new registry\<close>







section \<open>Registry invariants\<close>



text \<open>The scenario's state, and that it satisfies the invariants.\<close>

lemma scenario_state:
  "units (scenario fl rnd) = 0" "selectedUnits (scenario fl rnd) = Suc 0"
  "nextRef (scenario fl rnd) = 4" "nextUnitId (scenario fl rnd) = 2"
  "arrays (scenario fl rnd) 0 = [2, 3]" "arrays (scenario fl rnd) (Suc 0) = []"
  "objs (scenario fl rnd) 2 = \<lparr>id_u = 0, type_u = ''archer'', health = Number 60,
      maxHealth = Number 60, attack = Number 12, defense = Number 3, speed = Number 3,
      range_u = Number 5, position = \<lparr>px = Number 0, py = Number 0\<rparr>, selected = False,
      faction = player\<rparr>"
  "objs (scenario fl rnd) 3 = \<lparr>id_u = 1, type_u = ''infantry-medium'', health = Number 80,
      maxHealth = Number 80, attack = Number 8, defense = Number 5, speed = Number 3,
      range_u = Number 1, position = \<lparr>px = Number 100, py = Number 0\<rparr>, selected = False,
      faction = enemy\<rparr>"
  "events (scenario fl rnd) = [unit_added 2, unit_added 3]"
  by (simp_all add: scenario_def eval_defs)








section \<open>Registry queries\<close>

lemma internals_newArray:
  assumes "units s < nextRef s" "selectedUnits s < nextRef s"
  shows "internals (snd (newArray ys s)) = internals s"
    and "internals (caller_writes_array (fst (newArray ys s)) xs (snd (newArray ys s))) = internals s"
    and "arrays (snd (newArray ys s)) (fst (newArray ys s)) = ys"
    and "fst (newArray ys s) \<noteq> units (snd (newArray ys s))"
    and "fst (newArray ys s) \<noteq> selectedUnits (snd (newArray ys s))"
  using assms by (simp_all add: internals_def newArray_def caller_writes_array_def)

text \<open>
  Claim C5 (amended). \<open>getUnits\<close>, \<open>getUnitsByFaction\<close> and \<open>getSelectedUnits\<close> leave
  the registry's internal state as it was and return a new array, different from the
  registry's two arrays, that holds the references of the registry's own unit objects
  (all units, those of the faction, the selected ones). Whatever a caller then writes
  into the returned array, the registry's unit list, its selection list and the fields
  of its stored units stay unchanged. The hypothesis says that the registry's two
  arrays are allocated.
\<close>

theorem queries_return_new_arrays:
  assumes "units s < nextRef s" "selectedUnits s < nextRef s"
  shows
  "(internals (snd (getUnits s)) = internals s \<and>
    arrays (snd (getUnits s)) (fst (getUnits s)) = arrays s (units s) \<and>
    fst (getUnits s) \<noteq> units (snd (getUnits s)) \<and>
    fst (getUnits s) \<noteq> selectedUnits (snd (getUnits s)) \<and>
    internals (caller_writes_array (fst (getUnits s)) xs (snd (getUnits s))) = internals s) \<and>
   (internals (snd (getUnitsByFaction fac s)) = internals s \<and>
    arrays (snd (getUnitsByFaction fac s)) (fst (getUnitsByFaction fac s)) =
      filter (\<lambda>u. faction (objs s u) = fac) (arrays s (units s)) \<and>
    fst (getUnitsByFaction fac s) \<noteq> units (snd (getUnitsByFaction fac s)) \<and>
    fst (getUnitsByFaction fac s) \<noteq> selectedUnits (snd (getUnitsByFaction fac s)) \<and>
    internals (caller_writes_array (fst (getUnitsByFaction fac s)) xs (snd (getUnitsByFaction fac s))) =
      internals s) \<and>
   (internals (snd (getSelectedUnits s)) = internals s \<and>
    arrays (snd (getSelectedUnits s)) (fst (getSelectedUnits s)) = arrays s (selectedUnits s) \<and>
    fst (getSelectedUnits s) \<noteq> units (snd (getSelectedUnits s)) \<and>
    fst (getSelectedUnits s) \<noteq> selectedUnits (snd (getSelectedUnits s)) \<and>
    internals (caller_writes_array (fst (getSelectedUnits s)) xs (snd (getSelectedUnits s))) =
      internals s)"
  unfolding getUnits_def getUnitsByFaction_def getSelectedUnits_def
  using internals_newArray[OF assms] by simp

text \<open>The theorem at the scenario, the caller emptying or overwriting the returned array.\<close>

theorem queries_return_new_arrays_witness:
  "let A = scenario (\<lambda>x. x) (\<lambda>_. 0)
   in units A < nextRef A \<and> selectedUnits A < nextRef A \<and>
      fst (getUnits A) = 4 \<and> arrays (snd (getUnits A)) 4 = [2, 3] \<and>
      internals (caller_writes_array (fst (getUnits A)) [] (snd (getUnits A))) = internals A \<and>
      arrays (snd (getUnitsByFaction enemy A)) (fst (getUnitsByFaction enemy A)) = [3] \<and>
      internals (caller_writes_array (fst (getUnitsByFaction enemy A)) [] (snd (getUnitsByFaction enemy A))) =
        internals A \<and>
      arrays (snd (getSelectedUnits A)) (fst (getSelectedUnits A)) = [] \<and>
      internals (caller_writes_array (fst (getSelectedUnits A)) [2] (snd (getSelectedUnits A))) =
        internals A"
proof -
  define A where "A = scenario (\<lambda>x. x) (\<lambda>_. 0)"
  note a = scenario_state[of "\<lambda>x. x" "\<lambda>_. 0", folded A_def]
  have g: "fst (getUnits A) = 4" by (simp add: getUnits_def newArray_def a)
  have main: "units A < nextRef A \<and> selectedUnits A < nextRef A \<and>
      fst (getUnits A) = 4 \<and> arrays (snd (getUnits A)) 4 = [2, 3] \<and>
      internals (caller_writes_array (fst (getUnits A)) [] (snd (getUnits A))) = internals A \<and>
      arrays (snd (getUnitsByFaction enemy A)) (fst (getUnitsByFaction enemy A)) = [3] \<and>
      internals (caller_writes_array (fst (getUnitsByFaction enemy A)) [] (snd (getUnitsByFaction enemy A))) =
        internals A \<and>
      arrays (snd (getSelectedUnits A)) (fst (getSelectedUnits A)) = [] \<and>
      internals (caller_writes_array (fst (getSelectedUnits A)) [2] (snd (getSelectedUnits A))) =
        internals A"
    using queries_return_new_arrays[of A "[]" enemy] queries_return_new_arrays[of A "[2]" enemy] g
    by (simp add: a)
  show ?thesis unfolding Let_def by (rule main[unfolded A_def])
qed

text \<open>
  Claim C5 as stated fails for the unit objects: the returned array holds the stored
  objects themselves, not copies. In the scenario a caller that takes the first unit of
  \<open>getUnits()\<close> and sets its \<open>health\<close> to 0 has changed the archer stored in the
  registry from health 60 to health 0.
\<close>

theorem queries_share_unit_objects_counterexample:
  "let A = scenario (\<lambda>x. x) (\<lambda>_. 0);
       a = fst (getUnits A); A1 = snd (getUnits A);
       u = arrays A1 a ! 0;
       A2 = caller_writes_unit u ((objs A1 u)\<lparr>health := Number 0\<rparr>) A1
   in u = 2 \<and> health (objs A 2) = Number 60 \<and> health (objs A2 2) = Number 0 \<and>
      arrays A2 (units A2) = [2, 3] \<and> internals A2 \<noteq> internals A"
proof -
  define A where "A = scenario (\<lambda>x. x) (\<lambda>_. 0)"
  note a = scenario_state[of "\<lambda>x. x" "\<lambda>_. 0", folded A_def]
  have main: "arrays (snd (getUnits A)) (fst (getUnits A)) ! 0 = 2 \<and> health (objs A 2) = Number 60 \<and>
    health (objs (caller_writes_unit (arrays (snd (getUnits A)) (fst (getUnits A)) ! 0)
       ((objs (snd (getUnits A)) (arrays (snd (getUnits A)) (fst (getUnits A)) ! 0))\<lparr>health := Number 0\<rparr>)
       (snd (getUnits A))) 2) = Number 0 \<and>
    arrays (caller_writes_unit (arrays (snd (getUnits A)) (fst (getUnits A)) ! 0)
       ((objs (snd (getUnits A)) (arrays (snd (getUnits A)) (fst (getUnits A)) ! 0))\<lparr>health := Number 0\<rparr>)
       (snd (getUnits A))) (units (caller_writes_unit (arrays (snd (getUnits A)) (fst (getUnits A)) ! 0)
       ((objs (snd (getUnits A)) (arrays (snd (getUnits A)) (fst (getUnits A)) ! 0))\<lparr>health := Number 0\<rparr>)
       (snd (getUnits A)))) = [2, 3] \<and>
    internals (caller_writes_unit (arrays (snd (getUnits A)) (fst (getUnits A)) ! 0)
       ((objs (snd (getUnits A)) (arrays (snd (getUnits A)) (fst (getUnits A)) ! 0))\<lparr>health := Number 0\<rparr>)
       (snd (getUnits A))) \<noteq> internals A"
    by (simp add: getUnits_def newArray_def caller_writes_unit_def internals_def a)
  show ?thesis unfolding Let_def by (rule main[unfolded A_def])
qed

section \<open>Combat with cooldown\<close>




lemma combatCooldowns_deselectUnit [simp]:
  "combatCooldowns (deselectUnit i s) = combatCooldowns s"
  "defaultCooldown (deselectUnit i s) = defaultCooldown s"
  by (simp_all add: deselectUnit_def Let_def emit_def split: option.splits)

lemma combatCooldowns_removeUnit [simp]:
  "combatCooldowns (removeUnit i s) = combatCooldowns s"
  "defaultCooldown (removeUnit i s) = defaultCooldown s"
  by (simp_all add: removeUnit_def Let_def emit_def split: option.splits)





end
